theory Spec2Isabelle
  imports Main
begin

section \<open>Text and pattern matching\<close>

text \<open>
  Play texts are modelled as \<^typ>\<open>string\<close>, one \<^typ>\<open>char\<close> per character of an ASCII
  text. The stat rules are searched with \<^verbatim>\<open>re.search(regex, play_text, re.IGNORECASE)\<close>;
  on ASCII text a pattern letter matches the same letter in either case.
\<close>

definition lower_char :: "char \<Rightarrow> char" where
  "lower_char c =
     (let n = (of_char c :: nat) in if 65 \<le> n \<and> n \<le> 90 then char_of (n + 32) else c)"

definition py_lower :: "string \<Rightarrow> string" where
  "py_lower s = map lower_char s"

text \<open>
  The fragment of the regular-expression language that the rule table uses: literal text,
  \<^verbatim>\<open>.*\<close> (any run of characters other than a newline), alternation and concatenation.
\<close>

datatype regex = Lit string | AnyStar | Alt regex regex | Cat regex regex

text \<open>
  \<open>any_star s\<close> lists what is left of \<open>s\<close> after each way \<^verbatim>\<open>.*\<close> can match a prefix of
  it, the longest match first (the quantifier is greedy).
\<close>

fun any_star :: "string \<Rightarrow> string list" where
  "any_star [] = [[]]"
| "any_star (c # cs) = (if c = CHR 0x0A then [] else any_star cs) @ [c # cs]"

text \<open>
  \<open>rests r s\<close> lists what is left of \<open>s\<close> after each way \<open>r\<close> can match a prefix of \<open>s\<close>,
  in the order a backtracking matcher tries them.
\<close>

fun rests :: "regex \<Rightarrow> string \<Rightarrow> string list" where
  "rests (Lit l) s =
     (if length l \<le> length s \<and> py_lower (take (length l) s) = py_lower l
      then [drop (length l) s] else [])"
| "rests AnyStar s = any_star s"
| "rests (Alt a b) s = rests a s @ rests b s"
| "rests (Cat a b) s = concat (map (rests b) (rests a s))"

text \<open>\<^verbatim>\<open>re.search\<close>, read as a truth value: the pattern matches at some position of the text.\<close>

fun re_search :: "regex \<Rightarrow> string \<Rightarrow> bool" where
  "re_search r [] = (rests r [] \<noteq> [])"
| "re_search r (c # cs) = (rests r (c # cs) \<noteq> [] \<or> re_search r cs)"

section \<open>Decoded JSON values\<close>

text \<open>
  What \<^verbatim>\<open>json.loads\<close> returns. An object is an association list in insertion order (the
  keys of a decoded object are distinct). \<open>JNaN\<close> is the float that \<^verbatim>\<open>json.loads\<close> makes of the
  literal \<^verbatim>\<open>NaN\<close>; every other float is kept as the text of its literal, the program never
  computes with one.
\<close>

datatype json =
    JNull
  | JBool bool
  | JInt int
  | JFloat string
  | JNaN
  | JStr string
  | JArr "json list"
  | JObj "(string \<times> json) list"

text \<open>
  \<^verbatim>\<open>x == x\<close> for a decoded value \<open>x\<close>: false for the float NaN and for nothing else (an array
  or an object that holds NaN is equal to itself, since elements are compared by identity
  first).
\<close>

definition self_equal :: "json \<Rightarrow> bool" where
  "self_equal x = (x \<noteq> JNaN)"

section \<open>Plays and players (models.py)\<close>

text \<open>
  The dataclass \<^verbatim>\<open>Play\<close>. Its annotations (\<^verbatim>\<open>clock: str\<close>, \<^verbatim>\<open>period: int\<close>) are not
  enforced: the stream passes whatever the decoded payload holds, so both are JSON values.
\<close>

record play =
  play_id :: int
  play_text :: string
  clock :: json
  period :: json

record player =
  name :: string
  number :: int
  position :: string
  starter :: int
  on_court :: int
  minutes_played :: string
  field_goals_made :: int
  field_goals_attempted :: int
  three_point_field_goals_made :: int
  three_point_field_goals_attempted :: int
  free_throws_made :: int
  free_throws_attempted :: int
  points :: int
  offensive_rebounds :: int
  defensive_rebounds :: int
  total_rebounds :: int
  assists :: int
  turnovers :: int
  steals :: int
  blocks :: int
  fouls :: int
  disqualifications :: int
  technical_fouls :: int
  plays :: "play list"

text \<open>The names of the counting statistics, in the order the dataclass declares them.\<close>

datatype field_name =
    Field_goals_made
  | Field_goals_attempted
  | Three_point_field_goals_made
  | Three_point_field_goals_attempted
  | Free_throws_made
  | Free_throws_attempted
  | Points
  | Offensive_rebounds
  | Defensive_rebounds
  | Total_rebounds
  | Assists
  | Turnovers
  | Steals
  | Blocks
  | Fouls
  | Disqualifications
  | Technical_fouls

fun getattr :: "player \<Rightarrow> field_name \<Rightarrow> int" where
  "getattr p Field_goals_made = field_goals_made p"
| "getattr p Field_goals_attempted = field_goals_attempted p"
| "getattr p Three_point_field_goals_made = three_point_field_goals_made p"
| "getattr p Three_point_field_goals_attempted = three_point_field_goals_attempted p"
| "getattr p Free_throws_made = free_throws_made p"
| "getattr p Free_throws_attempted = free_throws_attempted p"
| "getattr p Points = points p"
| "getattr p Offensive_rebounds = offensive_rebounds p"
| "getattr p Defensive_rebounds = defensive_rebounds p"
| "getattr p Total_rebounds = total_rebounds p"
| "getattr p Assists = assists p"
| "getattr p Turnovers = turnovers p"
| "getattr p Steals = steals p"
| "getattr p Blocks = blocks p"
| "getattr p Fouls = fouls p"
| "getattr p Disqualifications = disqualifications p"
| "getattr p Technical_fouls = technical_fouls p"

fun setattr :: "player \<Rightarrow> field_name \<Rightarrow> int \<Rightarrow> player" where
  "setattr p Field_goals_made v = p\<lparr>field_goals_made := v\<rparr>"
| "setattr p Field_goals_attempted v = p\<lparr>field_goals_attempted := v\<rparr>"
| "setattr p Three_point_field_goals_made v = p\<lparr>three_point_field_goals_made := v\<rparr>"
| "setattr p Three_point_field_goals_attempted v = p\<lparr>three_point_field_goals_attempted := v\<rparr>"
| "setattr p Free_throws_made v = p\<lparr>free_throws_made := v\<rparr>"
| "setattr p Free_throws_attempted v = p\<lparr>free_throws_attempted := v\<rparr>"
| "setattr p Points v = p\<lparr>points := v\<rparr>"
| "setattr p Offensive_rebounds v = p\<lparr>offensive_rebounds := v\<rparr>"
| "setattr p Defensive_rebounds v = p\<lparr>defensive_rebounds := v\<rparr>"
| "setattr p Total_rebounds v = p\<lparr>total_rebounds := v\<rparr>"
| "setattr p Assists v = p\<lparr>assists := v\<rparr>"
| "setattr p Turnovers v = p\<lparr>turnovers := v\<rparr>"
| "setattr p Steals v = p\<lparr>steals := v\<rparr>"
| "setattr p Blocks v = p\<lparr>blocks := v\<rparr>"
| "setattr p Fouls v = p\<lparr>fouls := v\<rparr>"
| "setattr p Disqualifications v = p\<lparr>disqualifications := v\<rparr>"
| "setattr p Technical_fouls v = p\<lparr>technical_fouls := v\<rparr>"

text \<open>
  The \<^verbatim>\<open>regex\<close> metadata of each field. \<^verbatim>\<open>free throw.*missed|made\<close> is an alternation at
  the top level: \<^verbatim>\<open>free throw.*missed\<close> or \<^verbatim>\<open>made\<close>; so is \<^verbatim>\<open>3pt.*missed|made\<close>.
\<close>

fun metadata_regex :: "field_name \<Rightarrow> regex option" where
  "metadata_regex Field_goals_made =
     Some (Cat (Alt (Lit ''jump shot'') (Lit ''layup'')) (Cat AnyStar (Lit ''made'')))"
| "metadata_regex Field_goals_attempted =
     Some (Alt (Cat (Lit ''free throw'') (Cat AnyStar (Lit ''missed''))) (Lit ''made''))"
| "metadata_regex Three_point_field_goals_made =
     Some (Cat (Lit ''3pt'') (Cat AnyStar (Lit ''made'')))"
| "metadata_regex Three_point_field_goals_attempted =
     Some (Alt (Cat (Lit ''3pt'') (Cat AnyStar (Lit ''missed''))) (Lit ''made''))"
| "metadata_regex Free_throws_made =
     Some (Cat (Lit ''free throw'') (Cat AnyStar (Lit ''made'')))"
| "metadata_regex Free_throws_attempted =
     Some (Alt (Cat (Lit ''free throw'') (Cat AnyStar (Lit ''missed''))) (Lit ''made''))"
| "metadata_regex Turnovers = Some (Cat (Lit ''turnover'') AnyStar)"
| "metadata_regex Fouls = Some (Cat (Lit ''foul'') AnyStar)"
| "metadata_regex f = None"

text \<open>
  \<^verbatim>\<open>__dataclass_fields__\<close>, restricted to the counting statistics. The other fields
  (\<^verbatim>\<open>name\<close>, \<^verbatim>\<open>number\<close>, \<^verbatim>\<open>position\<close>, \<^verbatim>\<open>starter\<close>, \<^verbatim>\<open>on_court\<close>, \<^verbatim>\<open>minutes_played\<close>,
  \<^verbatim>\<open>plays\<close>) carry no \<^verbatim>\<open>regex\<close> metadata and the loop passes over them.
\<close>

definition dataclass_fields :: "field_name list" where
  "dataclass_fields =
     [Field_goals_made, Field_goals_attempted, Three_point_field_goals_made,
      Three_point_field_goals_attempted, Free_throws_made, Free_throws_attempted, Points,
      Offensive_rebounds, Defensive_rebounds, Total_rebounds, Assists, Turnovers, Steals,
      Blocks, Fouls, Disqualifications, Technical_fouls]"

text \<open>
  The loop of \<^verbatim>\<open>_update_stats_from_play\<close> over the fields still to visit; the state is the
  player and the flag \<^verbatim>\<open>matched\<close>.
\<close>

fun update_loop :: "field_name list \<Rightarrow> string \<Rightarrow> player \<times> bool \<Rightarrow> player \<times> bool" where
  "update_loop [] text (p, matched) = (p, matched)"
| "update_loop (f # fs) text (p, matched) =
     (case metadata_regex f of
        None \<Rightarrow> update_loop fs text (p, matched)
      | Some regex \<Rightarrow>
          if re_search regex text
          then update_loop fs text (setattr p f (getattr p f + 1), True)
          else update_loop fs text (p, matched))"

text \<open>The result is the player and the lines printed.\<close>

definition update_stats_from_play :: "player \<Rightarrow> string \<Rightarrow> player \<times> string list" where
  "update_stats_from_play p text =
     (let (p', matched) = update_loop dataclass_fields text (p, False)
      in (p', if \<not> matched then [''Unmatched play text: '' @ text] else []))"

text \<open>
  \<^verbatim>\<open>Player.add_play\<close>. The generator compares \<^verbatim>\<open>play.play_id\<close> with the argument, and
  then each of the other three arguments with itself: \<^verbatim>\<open>play_text == play_text\<close> holds of
  every string, \<^verbatim>\<open>clock == clock\<close> and \<^verbatim>\<open>period == period\<close> hold unless the value is NaN. The
  result is the play returned, the player and the lines printed.
\<close>

definition add_play ::
  "player \<Rightarrow> int \<Rightarrow> string \<Rightarrow> json \<Rightarrow> json \<Rightarrow> play \<times> player \<times> string list" where
  "add_play p pid text clk per =
     (case find (\<lambda>pl. play_id pl = pid \<and> text = text \<and> self_equal clk \<and> self_equal per)
             (plays p) of
        Some existing_play \<Rightarrow> (existing_play, p, [])
      | None \<Rightarrow>
          (let new_play = \<lparr>play_id = pid, play_text = text, clock = clk, period = per\<rparr>;
               (p', out) = update_stats_from_play p (play_text new_play)
           in (new_play, p'\<lparr>plays := plays p' @ [new_play]\<rparr>, out)))"

text \<open>
  The constructor of the dataclass: the five fields without a default are its arguments,
  every counter starts at zero and the play sequence starts empty.
\<close>

definition Player :: "string \<Rightarrow> int \<Rightarrow> string \<Rightarrow> int \<Rightarrow> int \<Rightarrow> player" where
  "Player nm num pos st oc =
     \<lparr>name = nm, number = num, position = pos, starter = st, on_court = oc,
      minutes_played = ''0:00'', field_goals_made = 0, field_goals_attempted = 0,
      three_point_field_goals_made = 0, three_point_field_goals_attempted = 0,
      free_throws_made = 0, free_throws_attempted = 0, points = 0, offensive_rebounds = 0,
      defensive_rebounds = 0, total_rebounds = 0, assists = 0, turnovers = 0, steals = 0,
      blocks = 0, fouls = 0, disqualifications = 0, technical_fouls = 0, plays = []\<rparr>"

subsection \<open>Vocabulary of the properties\<close>

text \<open>The rule of field \<open>f\<close> matches the text.\<close>

definition fires :: "field_name \<Rightarrow> string \<Rightarrow> bool" where
  "fires f text =
     (case metadata_regex f of None \<Rightarrow> False | Some regex \<Rightarrow> re_search regex text)"

text \<open>A sequence of \<^verbatim>\<open>add_play\<close> calls on one player, each given as (id, text, clock, period).\<close>

fun add_plays :: "player \<Rightarrow> (int \<times> string \<times> json \<times> json) list \<Rightarrow> player" where
  "add_plays p [] = p"
| "add_plays p ((pid, text, clk, per) # subs) =
     add_plays (fst (snd (add_play p pid text clk per))) subs"

text \<open>The text holds \<open>w\<close> at some position, letter case apart.\<close>

definition contains_ci :: "string \<Rightarrow> string \<Rightarrow> bool" where
  "contains_ci text w =
     list_ex (\<lambda>i. py_lower (take (length w) (drop i text)) = py_lower w)
       [0..<Suc (length text)]"

section \<open>Protocol messages (models.py)\<close>

text \<open>\<^verbatim>\<open>str\<close> of an integer: its decimal digits, with a minus sign when negative.\<close>

fun str_nat :: "nat \<Rightarrow> string" where
  "str_nat n = (if n < 10 then [char_of (48 + n)] else str_nat (n div 10) @ [char_of (48 + n mod 10)])"

definition str_int :: "int \<Rightarrow> string" where
  "str_int i = (if i < 0 then CHR ''-'' # str_nat (nat (- i)) else str_nat (nat i))"

text \<open>
  The three dataclasses that derive from \<^verbatim>\<open>BaseMessage\<close>. \<^verbatim>\<open>BaseMessage\<close> declares the
  class attribute \<^verbatim>\<open>_id_counter = 0\<close>; none of the subclasses declares one.
\<close>

datatype message_class = HandshakeMessage | ConnectMessage | SubscribeMessage

text \<open>
  The class namespaces: \<open>base_id_counter\<close> is \<^verbatim>\<open>BaseMessage._id_counter\<close>, and
  \<open>own_id_counter cls\<close> is the attribute \<^verbatim>\<open>_id_counter\<close> in the namespace of the subclass
  \<open>cls\<close> itself, \<open>None\<close> as long as nothing has been assigned there.
\<close>

record class_attrs =
  base_id_counter :: int
  own_id_counter :: "message_class \<Rightarrow> int option"

definition initial_class_attrs :: class_attrs where
  "initial_class_attrs = \<lparr>base_id_counter = 0, own_id_counter = (\<lambda>cls. None)\<rparr>"

text \<open>
  Reading \<^verbatim>\<open>self.__class__._id_counter\<close>: the attribute of the class of the instance, found
  in its own namespace or else, along the method resolution order, in \<^verbatim>\<open>BaseMessage\<close>.
\<close>

definition id_counter :: "class_attrs \<Rightarrow> message_class \<Rightarrow> int" where
  "id_counter attrs cls =
     (case own_id_counter attrs cls of Some v \<Rightarrow> v | None \<Rightarrow> base_id_counter attrs)"

text \<open>
  \<^verbatim>\<open>BaseMessage.__post_init__\<close> on an instance of class \<open>cls\<close>: the id is \<^verbatim>\<open>str\<close> of the counter
  read, and \<^verbatim>\<open>self.__class__._id_counter += 1\<close> assigns the sum in the namespace of \<open>cls\<close>.
\<close>

definition post_init :: "class_attrs \<Rightarrow> message_class \<Rightarrow> string \<times> class_attrs" where
  "post_init attrs cls =
     (str_int (id_counter attrs cls),
      attrs\<lparr>own_id_counter := (own_id_counter attrs)(cls \<mapsto> id_counter attrs cls + 1)\<rparr>)"

record message =
  message_class :: message_class
  ext :: "(string \<times> string) list"
  channel :: string
  message_id :: string
  version :: "string option"
  supportedConnectionTypes :: "string list option"
  clientId :: "json option"
  connectionType :: "string option"
  subscription :: "string option"

text \<open>The constructors: the generated \<^verbatim>\<open>__init__\<close> followed by \<^verbatim>\<open>__post_init__\<close>.\<close>

definition new_HandshakeMessage ::
  "class_attrs \<Rightarrow> (string \<times> string) list \<Rightarrow> message \<times> class_attrs" where
  "new_HandshakeMessage attrs e =
     (let (i, attrs') = post_init attrs HandshakeMessage
      in (\<lparr>message_class = HandshakeMessage, ext = e, channel = ''/meta/handshake'',
           message_id = i, version = Some ''1.0'',
           supportedConnectionTypes =
             Some [''websocket'', ''eventsource'', ''long-polling'',
                   ''cross-origin-long-polling'', ''callback-polling''],
           clientId = None, connectionType = None, subscription = None\<rparr>, attrs'))"

definition new_ConnectMessage ::
  "class_attrs \<Rightarrow> (string \<times> string) list \<Rightarrow> json \<Rightarrow> message \<times> class_attrs" where
  "new_ConnectMessage attrs e cid =
     (let (i, attrs') = post_init attrs ConnectMessage
      in (\<lparr>message_class = ConnectMessage, ext = e, channel = ''/meta/connect'',
           message_id = i, version = None, supportedConnectionTypes = None,
           clientId = Some cid, connectionType = Some ''websocket'', subscription = None\<rparr>,
          attrs'))"

definition new_SubscribeMessage ::
  "class_attrs \<Rightarrow> (string \<times> string) list \<Rightarrow> json \<Rightarrow> string \<Rightarrow> message \<times> class_attrs" where
  "new_SubscribeMessage attrs e cid sub =
     (let (i, attrs') = post_init attrs SubscribeMessage
      in (\<lparr>message_class = SubscribeMessage, ext = e, channel = ''/meta/subscribe'',
           message_id = i, version = None, supportedConnectionTypes = None,
           clientId = Some cid, connectionType = None, subscription = Some sub\<rparr>, attrs'))"

text \<open>
  A sequence of constructions in one process, each given by the class and the arguments of
  the constructor; the result is the messages in the order of construction.
\<close>

datatype construction =
    Handshake "(string \<times> string) list"
  | Connect "(string \<times> string) list" json
  | Subscribe "(string \<times> string) list" json string

fun construct :: "class_attrs \<Rightarrow> construction \<Rightarrow> message \<times> class_attrs" where
  "construct attrs (Handshake e) = new_HandshakeMessage attrs e"
| "construct attrs (Connect e cid) = new_ConnectMessage attrs e cid"
| "construct attrs (Subscribe e cid sub) = new_SubscribeMessage attrs e cid sub"

fun construct_all :: "class_attrs \<Rightarrow> construction list \<Rightarrow> message list" where
  "construct_all attrs [] = []"
| "construct_all attrs (c # cs) =
     (let (m, attrs') = construct attrs c in m # construct_all attrs' cs)"

section \<open>Python operations on decoded values\<close>

datatype py_error =
    TypeError
  | KeyError
  | IndexError
  | AttributeError
  | ValueError
  | JSONDecodeError

definition is_space :: "char \<Rightarrow> bool" where
  "is_space c =
     (let n = (of_char c :: nat) in (9 \<le> n \<and> n \<le> 13) \<or> (28 \<le> n \<and> n \<le> 32))"

definition is_alpha :: "char \<Rightarrow> bool" where
  "is_alpha c =
     (let n = (of_char c :: nat) in (65 \<le> n \<and> n \<le> 90) \<or> (97 \<le> n \<and> n \<le> 122))"

definition is_digit :: "char \<Rightarrow> bool" where
  "is_digit c = (let n = (of_char c :: nat) in 48 \<le> n \<and> n \<le> 57)"

text \<open>\<^verbatim>\<open>s.strip()\<close>, \<^verbatim>\<open>s.startswith(prefix)\<close> and \<^verbatim>\<open>s.split(sep)\<close> for a one-character separator.\<close>

definition strip :: "string \<Rightarrow> string" where
  "strip s = rev (dropWhile is_space (rev (dropWhile is_space s)))"

definition startswith :: "string \<Rightarrow> string \<Rightarrow> bool" where
  "startswith s prefix = (take (length prefix) s = prefix)"

fun split :: "string \<Rightarrow> char \<Rightarrow> string list" where
  "split [] sep = [[]]"
| "split (c # cs) sep =
     (if c = sep then [] # split cs sep
      else (case split cs sep of [] \<Rightarrow> [[c]] | w # ws \<Rightarrow> (c # w) # ws))"

text \<open>
  \<^verbatim>\<open>int(s)\<close> for a string without underscores (it is applied to a piece of a key split at
  the underscores): surrounding whitespace, an optional sign, then one digit or more. The
  whitespace that \<^verbatim>\<open>int\<close> skips in an ASCII string is the tab to the carriage return and the
  space, not the separators 28 to 31.
\<close>

definition is_int_space :: "char \<Rightarrow> bool" where
  "is_int_space c = (let n = (of_char c :: nat) in (9 \<le> n \<and> n \<le> 13) \<or> n = 32)"

fun digits_value :: "string \<Rightarrow> nat \<Rightarrow> nat" where
  "digits_value [] acc = acc"
| "digits_value (c # cs) acc = digits_value cs (10 * acc + (of_char c - 48))"

definition py_int :: "string \<Rightarrow> py_error + int" where
  "py_int s =
     (let t = rev (dropWhile is_int_space (rev (dropWhile is_int_space s)));
          negative = (t \<noteq> [] \<and> hd t = CHR ''-'');
          ds = (if t \<noteq> [] \<and> (hd t = CHR ''-'' \<or> hd t = CHR ''+'') then tl t else t)
      in if ds \<noteq> [] \<and> list_all is_digit ds
         then Inr (if negative then - int (digits_value ds 0) else int (digits_value ds 0))
         else Inl ValueError)"

text \<open>The keys of an object; \<^verbatim>\<open>k in x\<close> for a string \<open>k\<close>; \<^verbatim>\<open>x[k]\<close> for a string \<open>k\<close>.\<close>

definition keys :: "(string \<times> json) list \<Rightarrow> string list" where
  "keys kvs = map fst kvs"

fun is_substring :: "string \<Rightarrow> string \<Rightarrow> bool" where
  "is_substring k [] = (k = [])"
| "is_substring k (c # cs) = (startswith (c # cs) k \<or> is_substring k cs)"

fun py_in :: "string \<Rightarrow> json \<Rightarrow> py_error + bool" where
  "py_in k (JObj kvs) = Inr (k \<in> set (keys kvs))"
| "py_in k (JArr xs) = Inr (JStr k \<in> set xs)"
| "py_in k (JStr s) = Inr (is_substring k s)"
| "py_in k x = Inl TypeError"

fun py_getitem :: "json \<Rightarrow> string \<Rightarrow> py_error + json" where
  "py_getitem (JObj kvs) k = (case map_of kvs k of Some v \<Rightarrow> Inr v | None \<Rightarrow> Inl KeyError)"
| "py_getitem x k = Inl TypeError"

text \<open>\<^verbatim>\<open>x.get(k, default)\<close>: only an object has the method.\<close>

fun py_get :: "json \<Rightarrow> string \<Rightarrow> json \<Rightarrow> py_error + json" where
  "py_get (JObj kvs) k d = Inr (case map_of kvs k of Some v \<Rightarrow> v | None \<Rightarrow> d)"
| "py_get x k d = Inl AttributeError"

text \<open>
  \<^verbatim>\<open>for item in message\<close>: the elements of an array, the keys of an object, the characters
  of a string; nothing else can be iterated.
\<close>

fun py_iter :: "json \<Rightarrow> py_error + json list" where
  "py_iter (JArr xs) = Inr xs"
| "py_iter (JObj kvs) = Inr (map JStr (keys kvs))"
| "py_iter (JStr s) = Inr (map (\<lambda>c. JStr [c]) s)"
| "py_iter x = Inl TypeError"

text \<open>\<^verbatim>\<open>a and b\<close> on truth values, where evaluating either side may raise.\<close>

definition py_and :: "py_error + bool \<Rightarrow> py_error + bool \<Rightarrow> py_error + bool" where
  "py_and a b = (case a of Inl e \<Rightarrow> Inl e | Inr False \<Rightarrow> Inr False | Inr True \<Rightarrow> b)"

definition py_not :: "py_error + bool \<Rightarrow> py_error + bool" where
  "py_not a = (case a of Inl e \<Rightarrow> Inl e | Inr v \<Rightarrow> Inr (\<not> v))"

section \<open>Scoreboards and the live stream (models.py, stream.py)\<close>

record scoreboard =
  team_name :: "string option"
  team_logo_url :: "string option"
  players :: "player list"
  team_shortname :: "string option"

text \<open>
  \<^verbatim>\<open>Scoreboard.get_player_by_name\<close> returns the first player of the roster with the name. The
  caller mutates the object returned, so the model returns its position in the roster.
\<close>

fun first_index :: "('a \<Rightarrow> bool) \<Rightarrow> 'a list \<Rightarrow> nat option" where
  "first_index P [] = None"
| "first_index P (x # xs) = (if P x then Some 0 else map_option Suc (first_index P xs))"

definition get_player_by_name :: "scoreboard \<Rightarrow> string \<Rightarrow> nat option" where
  "get_player_by_name sb nm = first_index (\<lambda>player. name player = nm) (players sb)"

text \<open>
  The attributes of \<^verbatim>\<open>LiveStreamStats\<close>. \<^verbatim>\<open>_client_id\<close> exists only once a handshake has
  succeeded.
\<close>

record live_stream_stats =
  sports_code :: string
  game_id :: int
  away_scoreboard :: scoreboard
  home_scoreboard :: scoreboard
  websocket_message_ext :: "(string \<times> string) list"
  session_cookie :: string
  client_id :: "json option"

datatype side = Away | Home

text \<open>
  \<^verbatim>\<open>_get_player\<close>: the player found, as the scoreboard and the position in its roster, and
  the state, in which a scoreboard may have got the shorthand.
\<close>

definition get_player ::
  "live_stream_stats \<Rightarrow> string \<Rightarrow> string \<Rightarrow> (side \<times> nat) option \<times> live_stream_stats" where
  "get_player st player_name shortname =
     (if team_shortname (away_scoreboard st) = Some shortname
      then (map_option (Pair Away) (get_player_by_name (away_scoreboard st) player_name), st)
      else if team_shortname (home_scoreboard st) = Some shortname
      then (map_option (Pair Home) (get_player_by_name (home_scoreboard st) player_name), st)
      else (case get_player_by_name (away_scoreboard st) player_name of
              Some i \<Rightarrow>
                (Some (Away, i),
                 st\<lparr>away_scoreboard := (away_scoreboard st)\<lparr>team_shortname := Some shortname\<rparr>\<rparr>)
            | None \<Rightarrow>
                (case get_player_by_name (home_scoreboard st) player_name of
                   Some i \<Rightarrow>
                     (Some (Home, i),
                      st\<lparr>home_scoreboard :=
                           (home_scoreboard st)\<lparr>team_shortname := Some shortname\<rparr>\<rparr>)
                 | None \<Rightarrow> (None, st))))"

text \<open>
  \<^verbatim>\<open>_parse_plays\<close>: the matches of \<^verbatim>\<open>[A-Za-z\s]+\(([A-Za-z]+)\)\<close> from left to right, without
  overlap. \<open>match_at s\<close> matches the pattern at the start of \<open>s\<close>: both runs are as long as they
  can be, a shorter run is never followed by the bracket it needs.
\<close>

definition match_at :: "string \<Rightarrow> (string \<times> string \<times> string) option" where
  "match_at s =
     (let nm = takeWhile (\<lambda>c. is_alpha c \<or> is_space c) s;
          r1 = dropWhile (\<lambda>c. is_alpha c \<or> is_space c) s
      in if nm = [] then None
         else (case r1 of
                 [] \<Rightarrow> None
               | c # r2 \<Rightarrow>
                   if c \<noteq> CHR ''('' then None
                   else (let sh = takeWhile is_alpha r2; r3 = dropWhile is_alpha r2
                         in if sh = [] then None
                            else (case r3 of
                                    [] \<Rightarrow> None
                                  | d # r4 \<Rightarrow> if d = CHR '')'' then Some (nm, sh, r4) else None))))"

function parse_plays :: "string \<Rightarrow> (string \<times> string) list" where
  "parse_plays [] = []"
| "parse_plays (c # cs) =
     (case match_at (c # cs) of
        Some (nm, sh, rest) \<Rightarrow> (nm, sh) # parse_plays rest
      | None \<Rightarrow> parse_plays cs)"
  by pat_completeness auto
termination
proof -
  have shorter: "length rest < length s" if m: "match_at s = Some (nm, sh, rest)"
    for s nm sh rest
  proof -
    let ?P = "\<lambda>c. is_alpha c \<or> is_space c"
    from m obtain c r2 where r1: "dropWhile ?P s = c # r2"
      by (auto simp: match_at_def Let_def split: if_splits list.splits)
    from m r1 obtain d where r3: "dropWhile is_alpha r2 = d # rest"
      by (auto simp: match_at_def Let_def split: if_splits list.splits)
    have "length rest < length (dropWhile is_alpha r2)" by (simp add: r3)
    also have "\<dots> \<le> length r2" by (rule length_dropWhile_le)
    also have "\<dots> < length (dropWhile ?P s)" by (simp add: r1)
    also have "\<dots> \<le> length s" by (rule length_dropWhile_le)
    finally show ?thesis .
  qed
  show ?thesis
    by (relation "measure length") (auto dest: shorter)
qed

text \<open>The player at a position of a roster, replaced.\<close>

definition update_player :: "live_stream_stats \<Rightarrow> side \<times> nat \<Rightarrow> player \<Rightarrow> live_stream_stats" where
  "update_player st r p =
     (case r of
        (Away, i) \<Rightarrow>
          st\<lparr>away_scoreboard :=
               (away_scoreboard st)\<lparr>players := (players (away_scoreboard st))[i := p]\<rparr>\<rparr>
      | (Home, i) \<Rightarrow>
          st\<lparr>home_scoreboard :=
               (home_scoreboard st)\<lparr>players := (players (home_scoreboard st))[i := p]\<rparr>\<rparr>)"

definition player_at :: "live_stream_stats \<Rightarrow> side \<times> nat \<Rightarrow> player" where
  "player_at st r =
     (case r of
        (Away, i) \<Rightarrow> players (away_scoreboard st) ! i
      | (Home, i) \<Rightarrow> players (home_scoreboard st) ! i)"

text \<open>
  The two loops of \<^verbatim>\<open>_process_play_data\<close>: over the matches of one play text, and over the
  play texts. The play that \<^verbatim>\<open>add_play\<close> returns is not used, and the lines it prints are
  not part of the state.
\<close>

fun process_matches ::
  "live_stream_stats \<Rightarrow> int \<Rightarrow> string \<Rightarrow> json \<Rightarrow> json \<Rightarrow> (string \<times> string) list
     \<Rightarrow> live_stream_stats" where
  "process_matches st pid text clk per [] = st"
| "process_matches st pid text clk per ((nm, sh) # ms) =
     (case get_player st (strip nm) sh of
        (None, st') \<Rightarrow> process_matches st' pid text clk per ms
      | (Some r, st') \<Rightarrow>
          process_matches
            (update_player st' r (fst (snd (add_play (player_at st' r) pid text clk per))))
            pid text clk per ms)"

fun process_texts ::
  "live_stream_stats \<Rightarrow> int \<Rightarrow> json \<Rightarrow> json \<Rightarrow> string list \<Rightarrow> live_stream_stats" where
  "process_texts st pid clk per [] = st"
| "process_texts st pid clk per (text # ts) =
     process_texts (process_matches st pid text clk per (parse_plays text))
       pid clk per ts"

definition process_play_data ::
  "live_stream_stats \<Rightarrow> string \<Rightarrow> json \<Rightarrow> py_error + live_stream_stats" where
  "process_play_data st play_key play_info =
     (case split play_key CHR ''_'' of
        _ # part # _ \<Rightarrow>
          (case py_int part of
             Inl e \<Rightarrow> Inl e
           | Inr pid \<Rightarrow>
               (case py_get play_info (''play_text_'' @ str_int pid) (JStr []) of
                  Inl e \<Rightarrow> Inl e
                | Inr (JStr s) \<Rightarrow>
                    (case py_get play_info (''clock_'' @ str_int pid) (JStr []) of
                       Inl e \<Rightarrow> Inl e
                     | Inr clk \<Rightarrow>
                         (case py_get play_info (''period_'' @ str_int pid) (JInt 0) of
                            Inl e \<Rightarrow> Inl e
                          | Inr per \<Rightarrow> Inr (process_texts st pid clk per (split s CHR '',''))))
                | Inr _ \<Rightarrow> Inl AttributeError))
      | _ \<Rightarrow> Inl IndexError)"

text \<open>The channel of the subscription, \<^verbatim>\<open>/{sports_code}/box_score/{game_id}\<close>.\<close>

definition subscribed_channel :: "live_stream_stats \<Rightarrow> string" where
  "subscribed_channel st = ''/'' @ sports_code st @ ''/box_score/'' @ str_int (game_id st)"

definition is_relevant_message :: "live_stream_stats \<Rightarrow> json \<Rightarrow> py_error + bool" where
  "is_relevant_message st item =
     py_and (py_in ''channel'' item)
       (py_and (case py_getitem item ''channel'' of
                  Inl e \<Rightarrow> Inl e
                | Inr c \<Rightarrow> Inr (c = JStr (subscribed_channel st)))
          (py_and (py_in ''data'' item)
             (py_and (py_not (py_in ''chart'' item)) (py_not (py_in ''shot_chart'' item)))))"

definition extract_play_data :: "json \<Rightarrow> py_error + (string \<times> json) list" where
  "extract_play_data item =
     (case py_getitem item ''data'' of
        Inl e \<Rightarrow> Inl e
      | Inr (JObj kvs) \<Rightarrow> Inr (filter (\<lambda>(key, value). startswith key ''play_'') kvs)
      | Inr _ \<Rightarrow> Inl AttributeError)"

text \<open>
  The body of \<^verbatim>\<open>_process_messages\<close>: the loop over the play data of one item, the loop over
  the items of one decoded frame, and the loop over the frames. An exception ends the task.
\<close>

fun process_play_items ::
  "live_stream_stats \<Rightarrow> (string \<times> json) list \<Rightarrow> py_error + live_stream_stats" where
  "process_play_items st [] = Inr st"
| "process_play_items st ((play_key, play_info) # kvs) =
     (case process_play_data st play_key play_info of
        Inl e \<Rightarrow> Inl e
      | Inr st' \<Rightarrow> process_play_items st' kvs)"

fun process_items :: "live_stream_stats \<Rightarrow> json list \<Rightarrow> py_error + live_stream_stats" where
  "process_items st [] = Inr st"
| "process_items st (item # items) =
     (case is_relevant_message st item of
        Inl e \<Rightarrow> Inl e
      | Inr False \<Rightarrow> process_items st items
      | Inr True \<Rightarrow>
          (case extract_play_data item of
             Inl e \<Rightarrow> Inl e
           | Inr play_data \<Rightarrow>
               (case process_play_items st play_data of
                  Inl e \<Rightarrow> Inl e
                | Inr st' \<Rightarrow> process_items st' items)))"

text \<open>
  An inbound frame is given by what \<^verbatim>\<open>json.loads\<close> makes of it: the decoded value, or
  \<open>Inl JSONDecodeError\<close> for a frame that is not JSON. \<open>process_frames\<close> is the body of
  \<^verbatim>\<open>async for raw_message in websocket\<close> on the frames given, one after the other; the first
  exception ends it.
\<close>

fun process_frames ::
  "live_stream_stats \<Rightarrow> (py_error + json) list \<Rightarrow> py_error + live_stream_stats" where
  "process_frames st [] = Inr st"
| "process_frames st (raw_message # frames) =
     (case raw_message of
        Inl e \<Rightarrow> Inl e
      | Inr message \<Rightarrow>
          (case py_iter message of
             Inl e \<Rightarrow> Inl e
           | Inr items \<Rightarrow>
               (case process_items st items of
                  Inl e \<Rightarrow> Inl e
                | Inr st' \<Rightarrow> process_frames st' frames)))"

text \<open>
  How the connection ends after its last frame. Both ways are a \<^verbatim>\<open>websockets.ConnectionClosed\<close>:
  after a normal closure (\<^verbatim>\<open>ConnectionClosedOK\<close>) the iteration over the websocket is
  exhausted without an exception, after any other closure it raises
  \<^verbatim>\<open>ConnectionClosedError\<close>.
\<close>

datatype closure = ConnectionClosedOK | ConnectionClosedError

text \<open>How the task ends: an exception leaves it, \<open>ConnectionClosed\<close> with the state reached.\<close>

datatype task_end = Raised py_error | ConnectionClosed live_stream_stats

text \<open>
  One run of \<^verbatim>\<open>async for raw_message in websocket\<close>: \<open>Inl\<close> when an exception leaves it,
  \<open>Inr\<close> when the iteration is exhausted.
\<close>

definition async_for ::
  "live_stream_stats \<Rightarrow> (py_error + json) list \<Rightarrow> closure \<Rightarrow> task_end + live_stream_stats" where
  "async_for st frames cl =
     (case process_frames st frames of
        Inl e \<Rightarrow> Inl (Raised e)
      | Inr st' \<Rightarrow>
          (case cl of
             ConnectionClosedOK \<Rightarrow> Inr st'
           | ConnectionClosedError \<Rightarrow> Inl (ConnectionClosed st')))"

text \<open>
  \<^verbatim>\<open>_process_messages\<close>: \<^verbatim>\<open>while True\<close> around the iteration. The task never returns; it ends
  when an exception leaves it. After a normal closure the loop starts the iteration again,
  which is exhausted at once, every time: the task does not end, and the value is \<open>None\<close>.
\<close>

partial_function (option) process_messages ::
  "live_stream_stats \<Rightarrow> (py_error + json) list \<Rightarrow> closure \<Rightarrow> task_end option" where
  "process_messages st frames cl =
     (case async_for st frames cl of
        Inl ending \<Rightarrow> Some ending
      | Inr st' \<Rightarrow> process_messages st' [] cl)"

text \<open>
  The loop of \<^verbatim>\<open>stream\<close> over the connections, each given by the frames that arrive on it
  once the session is open and by the way it ends. Its \<^verbatim>\<open>except\<close> clause catches
  \<^verbatim>\<open>ConnectionClosed\<close> and goes on to the next connection; any other exception leaves
  \<^verbatim>\<open>stream\<close>. \<open>Some (Inr st)\<close> is the state in which it waits for the next connection, \<open>None\<close>
  stands for a frame-processing task that does not end.
\<close>

fun stream ::
  "live_stream_stats \<Rightarrow> ((py_error + json) list \<times> closure) list
     \<Rightarrow> (py_error + live_stream_stats) option" where
  "stream st [] = Some (Inr st)"
| "stream st ((frames, cl) # connections) =
     (case process_messages st frames cl of
        None \<Rightarrow> None
      | Some (Raised e) \<Rightarrow> Some (Inl e)
      | Some (ConnectionClosed st') \<Rightarrow> stream st' connections)"

text \<open>
  The play submissions that the loop over the items hands on for one item: the pairs of
  \<^verbatim>\<open>play_data.items()\<close>, none when the item is not relevant or an exception is raised first.
\<close>

definition forwarded :: "live_stream_stats \<Rightarrow> json \<Rightarrow> (string \<times> json) list" where
  "forwarded st item =
     (case is_relevant_message st item of
        Inr True \<Rightarrow> (case extract_play_data item of Inr play_data \<Rightarrow> play_data | Inl e \<Rightarrow> [])
      | _ \<Rightarrow> [])"

section \<open>Bootstrap (stream.py, http.py)\<close>

text \<open>
  What \<^verbatim>\<open>__init__\<close> reads of the response of \<^verbatim>\<open>fetch_url\<close>: the headers, looked up by name, and
  the text. \<^verbatim>\<open>fetch_url\<close> returns \<^verbatim>\<open>None\<close> when the request fails.
\<close>

record response =
  headers :: "string \<Rightarrow> string option"
  response_text :: string

text \<open>
  The search of \<^verbatim>\<open>(?:livestream_user_id=([^;]+);)?(?:.*?_stats_session=([^;]+);)?\<close> in the
  header. Both halves are optional, so the search succeeds at the first position of the
  header, and the pair of the two groups is all that is read of the match.

  \<open>token s\<close> matches \<^verbatim>\<open>([^;]+);\<close> at the start of \<open>s\<close> and gives the group and what follows the
  semicolon.
\<close>

definition token :: "string \<Rightarrow> (string \<times> string) option" where
  "token s =
     (let g = takeWhile (\<lambda>c. c \<noteq> CHR '';'') s; r = dropWhile (\<lambda>c. c \<noteq> CHR '';'') s
      in if g = [] then None else (case r of [] \<Rightarrow> None | semicolon # rest \<Rightarrow> Some (g, rest)))"

text \<open>The first half, at the start of the header.\<close>

definition user_id_group :: "string \<Rightarrow> (string \<times> string) option" where
  "user_id_group s =
     (if startswith s ''livestream_user_id='' then token (drop (length ''livestream_user_id='') s)
      else None)"

text \<open>
  The second half: \<^verbatim>\<open>.*?\<close> skips as few characters as possible, none of them a newline, up
  to a place where the rest of the half matches.
\<close>

definition session_here :: "string \<Rightarrow> string option" where
  "session_here s =
     (if startswith s ''_stats_session=''
      then map_option fst (token (drop (length ''_stats_session='') s))
      else None)"

fun session_group :: "string \<Rightarrow> string option" where
  "session_group [] = session_here []"
| "session_group (c # cs) =
     (case session_here (c # cs) of
        Some g \<Rightarrow> Some g
      | None \<Rightarrow> if c = CHR 0x0A then None else session_group cs)"

definition cookie_groups :: "string \<Rightarrow> string option \<times> string option" where
  "cookie_groups h =
     (case user_id_group h of
        Some (g, rest) \<Rightarrow> (Some g, session_group rest)
      | None \<Rightarrow> (None, session_group h))"

text \<open>
  \<^verbatim>\<open>LiveStreamStats.__init__\<close>. \<open>fetched\<close> is what \<^verbatim>\<open>fetch_url\<close> returns for the box score of the
  game and \<open>scraped\<close> what \<^verbatim>\<open>_get_scoreboards(response.text)\<close> returns or raises; it is
  called after the header has been read.
\<close>

definition init ::
  "string \<Rightarrow> int \<Rightarrow> response option \<Rightarrow> (py_error + scoreboard \<times> scoreboard)
     \<Rightarrow> py_error + live_stream_stats" where
  "init sc gid fetched scraped =
     (case fetched of
        None \<Rightarrow> Inl AttributeError
      | Some response \<Rightarrow>
          (case headers response ''Set-Cookie'' of
             None \<Rightarrow> Inl KeyError
           | Some set_cookie \<Rightarrow>
               (case scraped of
                  Inl e \<Rightarrow> Inl e
                | Inr (away, home) \<Rightarrow>
                    (let groups = cookie_groups set_cookie;
                         livestream_user_id = (case fst groups of Some g \<Rightarrow> g | None \<Rightarrow> []);
                         stats_session = (case snd groups of Some g \<Rightarrow> g | None \<Rightarrow> [])
                     in Inr \<lparr>sports_code = sc, game_id = gid, away_scoreboard = away,
                             home_scoreboard = home,
                             websocket_message_ext =
                               [(''livestream_token'', []),
                                (''livestream_user_id'', livestream_user_id)],
                             session_cookie =
                               ''livestream_user_id='' @ livestream_user_id
                               @ ''; _stats_session='' @ stats_session,
                             client_id = None\<rparr>))))"

section \<open>A game used in the examples\<close>

text \<open>
  Two rosters with a player called Smith on each side, as the scrape of the box score
  leaves them: no shorthand bound, every counter at zero.
\<close>

definition away_roster :: scoreboard where
  "away_roster =
     \<lparr>team_name = Some ''Alpha'', team_logo_url = None,
      players = [Player ''Smith'' 4 ''G'' 1 1], team_shortname = None\<rparr>"

definition home_roster :: scoreboard where
  "home_roster =
     \<lparr>team_name = Some ''Beta'', team_logo_url = None,
      players = [Player ''Jones'' 9 ''F'' 1 1, Player ''Smith'' 21 ''C'' 1 1],
      team_shortname = None\<rparr>"

definition sample_game :: live_stream_stats where
  "sample_game =
     \<lparr>sports_code = ''MBB'', game_id = 1, away_scoreboard = away_roster,
      home_scoreboard = home_roster,
      websocket_message_ext = [(''livestream_token'', []), (''livestream_user_id'', ''u1'')],
      session_cookie = ''livestream_user_id=u1; _stats_session=s1'', client_id = None\<rparr>"

text \<open>A play of the game, as the payload of an item carries it.\<close>

definition sample_play :: "string \<times> json" where
  "sample_play =
     (''play_1'',
      JObj [(''play_text_1'', JStr ''Smith(ABC) Layup made''), (''clock_1'', JStr ''19:40''),
            (''period_1'', JInt 1)])"

text \<open>A frame with one item on the subscribed channel that carries the play.\<close>

definition sample_frame :: json where
  "sample_frame =
     JArr [JObj [(''channel'', JStr ''/MBB/box_score/1''), (''data'', JObj [sample_play])]]"

section \<open>Properties of the player ledger\<close>

subsection \<open>The stat rules\<close>

lemmas eval_text = py_lower_def lower_char_def char_of_eq_iff

lemma getattr_setattr: "getattr (setattr p g v) f = (if f = g then v else getattr p f)"
  by (cases g; cases f; simp)

lemma getattr_plays_update: "getattr (p\<lparr>plays := ps\<rparr>) f = getattr p f"
  by (cases f; simp)

lemma plays_setattr: "plays (setattr p g v) = plays p"
  by (cases g; simp)

lemma plays_update_loop: "plays (fst (update_loop fs text (p, m))) = plays p"
  by (induction fs arbitrary: p m) (simp_all add: plays_setattr split: option.split)

lemma getattr_update_loop:
  "getattr (fst (update_loop fs text (p, m))) f =
     getattr p f + int (length (filter (\<lambda>g. g = f \<and> fires g text) fs))"
  by (induction fs arbitrary: p m) (auto simp: getattr_setattr fires_def split: option.split)

lemma count_fires:
  "length (filter (\<lambda>g. g = f \<and> fires g text) dataclass_fields) = (if fires f text then 1 else 0)"
proof -
  have "filter (\<lambda>g. g = f \<and> fires g text) dataclass_fields =
        (if fires f text then filter (\<lambda>g. g = f) dataclass_fields else [])"
    by (auto intro: filter_cong simp: filter_empty_conv)
  moreover have "length (filter (\<lambda>g. g = f) dataclass_fields) = 1"
    by (cases f; simp add: dataclass_fields_def)
  ultimately show ?thesis by simp
qed

lemma getattr_update_stats:
  "getattr (fst (update_stats_from_play p text)) f = getattr p f + (if fires f text then 1 else 0)"
proof -
  have "getattr (fst (update_loop dataclass_fields text (p, False))) f =
          getattr p f + (if fires f text then 1 else 0)"
    by (simp add: getattr_update_loop count_fires)
  then show ?thesis
    by (simp add: update_stats_from_play_def case_prod_beta)
qed

lemma plays_update_stats: "plays (fst (update_stats_from_play p text)) = plays p"
  by (simp add: update_stats_from_play_def case_prod_beta plays_update_loop)

text \<open>
  The search of \<^verbatim>\<open>add_play\<close> for an existing play: by the play id when the clock and the
  period are equal to themselves, and without result when one of them is NaN.
\<close>

lemma find_existing:
  "find (\<lambda>pl. play_id pl = pid \<and> text = text \<and> self_equal clk \<and> self_equal per) ps =
     (if self_equal clk \<and> self_equal per then find (\<lambda>pl. play_id pl = pid) ps else None)"
  by (induction ps) auto

lemma add_play_found:
  assumes "find (\<lambda>pl. play_id pl = pid \<and> text = text \<and> self_equal clk \<and> self_equal per)
             (plays p) = Some e"
  shows "add_play p pid text clk per = (e, p, [])"
  using assms by (simp add: add_play_def)

lemma add_play_not_found:
  assumes "find (\<lambda>pl. play_id pl = pid \<and> text = text \<and> self_equal clk \<and> self_equal per)
             (plays p) = None"
  shows "fst (add_play p pid text clk per) =
           \<lparr>play_id = pid, play_text = text, clock = clk, period = per\<rparr>"
    and "plays (fst (snd (add_play p pid text clk per))) =
           plays p @ [\<lparr>play_id = pid, play_text = text, clock = clk, period = per\<rparr>]"
    and "getattr (fst (snd (add_play p pid text clk per))) f =
           getattr p f + (if fires f text then 1 else 0)"
  using assms
  by (simp_all add: add_play_def Let_def case_prod_beta plays_update_stats getattr_update_stats
      getattr_plays_update)

lemma add_play_existing:
  "find (\<lambda>pl. play_id pl = pid) (plays p) = Some e \<Longrightarrow> self_equal clk \<Longrightarrow> self_equal per \<Longrightarrow>
     add_play p pid text clk per = (e, p, [])"
  by (rule add_play_found) (simp add: find_existing)

lemma add_play_new:
  assumes "find (\<lambda>pl. play_id pl = pid) (plays p) = None"
  shows "fst (add_play p pid text clk per) =
           \<lparr>play_id = pid, play_text = text, clock = clk, period = per\<rparr>"
    and "plays (fst (snd (add_play p pid text clk per))) =
           plays p @ [\<lparr>play_id = pid, play_text = text, clock = clk, period = per\<rparr>]"
    and "getattr (fst (snd (add_play p pid text clk per))) f =
           getattr p f + (if fires f text then 1 else 0)"
proof -
  from assms
  have "find (\<lambda>pl. play_id pl = pid \<and> text = text \<and> self_equal clk \<and> self_equal per)
          (plays p) = None"
    by (auto simp: find_None_iff)
  then show "fst (add_play p pid text clk per) =
      \<lparr>play_id = pid, play_text = text, clock = clk, period = per\<rparr>"
    and "plays (fst (snd (add_play p pid text clk per))) =
      plays p @ [\<lparr>play_id = pid, play_text = text, clock = clk, period = per\<rparr>]"
    and "getattr (fst (snd (add_play p pid text clk per))) f =
      getattr p f + (if fires f text then 1 else 0)"
    by (rule add_play_not_found)+
qed




subsection \<open>Applying a play twice\<close>





subsection \<open>Counters only grow\<close>

lemma add_play_step:
  "getattr (fst (snd (add_play p pid text clk per))) f = getattr p f
   \<or> getattr (fst (snd (add_play p pid text clk per))) f = getattr p f + 1"
proof (cases "find (\<lambda>pl. play_id pl = pid \<and> text = text \<and> self_equal clk \<and> self_equal per)
               (plays p)")
  case None
  then show ?thesis
    using add_play_not_found(3) [of pid "text" clk per p f] by simp
next
  case (Some e)
  then show ?thesis
    using add_play_found [of pid "text" clk per p e] by simp
qed

lemma add_plays_mono: "getattr p f \<le> getattr (add_plays p subs) f"
proof (induction subs arbitrary: p)
  case Nil
  show ?case by simp
next
  case (Cons s subs)
  obtain pid "text" clk per where s: "s = (pid, text, clk, per)"
    by (cases s) auto
  have "getattr p f \<le> getattr (fst (snd (add_play p pid text clk per))) f"
    using add_play_step [of p pid "text" clk per f] by auto
  also have "\<dots> \<le> getattr (add_plays (fst (snd (add_play p pid text clk per))) subs) f"
    by (rule Cons.IH)
  finally show ?case by (simp add: s)
qed

text \<open>
  C9. Every counting statistic of a player is non-decreasing along every sequence of
  \<^verbatim>\<open>add_play\<close> calls, and a single call either leaves a counter as it was or increments
  it by one; nothing decrements or resets a counter.
\<close>

theorem counters_never_decrease:
  "getattr p f \<le> getattr (add_plays p subs) f
   \<and> (getattr (fst (snd (add_play p pid text clk per))) f = getattr p f
      \<or> getattr (fst (snd (add_play p pid text clk per))) f = getattr p f + 1)"
  using add_plays_mono add_play_step by blast

subsection \<open>The word "made" in a play text\<close>

lemma rests_Lit_iff:
  "rests (Lit w) s \<noteq> [] \<longleftrightarrow> py_lower (take (length w) s) = py_lower w"
proof -
  have "length w \<le> length s" if "py_lower (take (length w) s) = py_lower w"
  proof -
    from that have "length (py_lower (take (length w) s)) = length (py_lower w)" by simp
    then show ?thesis by (simp add: py_lower_def)
  qed
  then show ?thesis by auto
qed

lemma re_search_drop:
  "i \<le> length s \<Longrightarrow> rests r (drop i s) \<noteq> [] \<Longrightarrow> re_search r s"
proof (induction s arbitrary: i)
  case Nil
  then show ?case by simp
next
  case (Cons c cs)
  then show ?case by (cases i) auto
qed

lemma re_search_Alt: "re_search (Alt a b) s \<longleftrightarrow> re_search a s \<or> re_search b s"
  by (induction s) auto

lemma contains_ci_search:
  assumes "contains_ci text w"
  shows "re_search (Lit w) text"
proof -
  from assms obtain i where i: "i \<le> length text"
    and eq: "py_lower (take (length w) (drop i text)) = py_lower w"
    by (auto simp: contains_ci_def list_ex_iff less_Suc_eq_le simp del: upt_Suc)
  from eq have "rests (Lit w) (drop i text) \<noteq> []"
    by (simp only: rests_Lit_iff)
  with i show ?thesis by (rule re_search_drop)
qed

lemma made_fires:
  assumes "contains_ci text ''made''"
  shows "fires Field_goals_attempted text"
    and "fires Three_point_field_goals_attempted text"
    and "fires Free_throws_attempted text"
  using contains_ci_search [OF assms] by (simp_all add: fires_def re_search_Alt)

text \<open>
  For a play id that no play of the player's sequence carries, a text that holds "made" in
  any letter case increments \<^verbatim>\<open>field_goals_attempted\<close>, \<^verbatim>\<open>three_point_field_goals_attempted\<close>
  and \<^verbatim>\<open>free_throws_attempted\<close> by exactly one each, whatever kind of shot it describes.
\<close>

lemma made_counts_as_every_attempt:
  assumes "contains_ci text ''made''"
      and "find (\<lambda>pl. play_id pl = pid) (plays p) = None"
  shows "field_goals_attempted (fst (snd (add_play p pid text clk per))) = field_goals_attempted p + 1
       \<and> three_point_field_goals_attempted (fst (snd (add_play p pid text clk per))) =
           three_point_field_goals_attempted p + 1
       \<and> free_throws_attempted (fst (snd (add_play p pid text clk per))) = free_throws_attempted p + 1"
  using add_play_new(3) [OF assms(2), of "text" clk per Field_goals_attempted]
        add_play_new(3) [OF assms(2), of "text" clk per Three_point_field_goals_attempted]
        add_play_new(3) [OF assms(2), of "text" clk per Free_throws_attempted]
        made_fires [OF assms(1)]
  by simp

subsection \<open>One play id, two different texts\<close>

lemma doe_layup_made:
  "plays (fst (snd (add_play (Player ''Doe'' 12 ''G'' 1 1) 7 ''Doe(ABC) Layup made''
      (JStr ''19:40'') (JInt 1)))) =
   [\<lparr>play_id = 7, play_text = ''Doe(ABC) Layup made'', clock = JStr ''19:40'', period = JInt 1\<rparr>]"
  "fouls (fst (snd (add_play (Player ''Doe'' 12 ''G'' 1 1) 7 ''Doe(ABC) Layup made''
      (JStr ''19:40'') (JInt 1)))) = 0"
proof -
  let ?p = "Player ''Doe'' 12 ''G'' 1 1"
  have h: "find (\<lambda>pl. play_id pl = 7) (plays ?p) = None" "plays ?p = []"
    by (simp_all add: Player_def)
  have nf: "\<not> fires Fouls ''Doe(ABC) Layup made''"
    by (simp add: fires_def eval_text)
  show "plays (fst (snd (add_play ?p 7 ''Doe(ABC) Layup made'' (JStr ''19:40'') (JInt 1)))) =
    [\<lparr>play_id = 7, play_text = ''Doe(ABC) Layup made'', clock = JStr ''19:40'', period = JInt 1\<rparr>]"
    using add_play_new(2) [OF h(1)] h(2) by simp
  show "fouls (fst (snd (add_play ?p 7 ''Doe(ABC) Layup made'' (JStr ''19:40'') (JInt 1)))) = 0"
    using add_play_new(3) [OF h(1), of "''Doe(ABC) Layup made''" "JStr ''19:40''" "JInt 1" Fouls] nf
    by (simp add: Player_def)
qed

text \<open>
  C2. The claim is that a submission whose (id, text, clock, period) is not yet in the
  player's sequence is appended and counted, also when a play of the sequence carries the
  same id with another text. The code does otherwise: after play 7 "Doe(ABC) Layup made",
  the submission of play 7 with the text "Doe(ABC) Foul" returns the earlier play, leaves
  the player as it was and does not count the foul, although the foul rule matches.
\<close>

theorem add_play_same_id_other_text:
  "add_play
     (fst (snd (add_play (Player ''Doe'' 12 ''G'' 1 1) 7 ''Doe(ABC) Layup made''
        (JStr ''19:40'') (JInt 1))))
     7 ''Doe(ABC) Foul'' (JStr ''19:40'') (JInt 1) =
   (\<lparr>play_id = 7, play_text = ''Doe(ABC) Layup made'', clock = JStr ''19:40'', period = JInt 1\<rparr>,
    fst (snd (add_play (Player ''Doe'' 12 ''G'' 1 1) 7 ''Doe(ABC) Layup made''
        (JStr ''19:40'') (JInt 1))),
    [])
   \<and> fires Fouls ''Doe(ABC) Foul''
   \<and> fouls (fst (snd (add_play (Player ''Doe'' 12 ''G'' 1 1) 7 ''Doe(ABC) Layup made''
        (JStr ''19:40'') (JInt 1)))) = 0"
proof -
  have "fires Fouls ''Doe(ABC) Foul''"
    by (simp add: fires_def eval_text)
  then show ?thesis
    by (simp add: add_play_existing doe_layup_made self_equal_def)
qed

text \<open>
  C10. The claim is that every previously unseen play whose text holds "made" increments
  the three attempt counters. The code does otherwise where the play is unseen but its id
  is not: after play 7 "Doe(ABC) Layup made" at 19:40, the play 7 "Doe(ABC) Free Throw made"
  at 19:00 is not in the player's sequence and its text holds "made", yet \<^verbatim>\<open>add_play\<close>
  returns the earlier play and leaves the player, and with it the three attempt counters,
  as it was. This is the defect of C2: the search compares the play id only.
\<close>

theorem made_play_with_known_id_not_counted:
  "contains_ci ''Doe(ABC) Free Throw made'' ''made''
   \<and> \<lparr>play_id = 7, play_text = ''Doe(ABC) Free Throw made'', clock = JStr ''19:00'',
        period = JInt 1\<rparr>
       \<notin> set (plays (fst (snd (add_play (Player ''Doe'' 12 ''G'' 1 1) 7 ''Doe(ABC) Layup made''
           (JStr ''19:40'') (JInt 1)))))
   \<and> add_play
         (fst (snd (add_play (Player ''Doe'' 12 ''G'' 1 1) 7 ''Doe(ABC) Layup made''
            (JStr ''19:40'') (JInt 1))))
         7 ''Doe(ABC) Free Throw made'' (JStr ''19:00'') (JInt 1) =
       (\<lparr>play_id = 7, play_text = ''Doe(ABC) Layup made'', clock = JStr ''19:40'',
          period = JInt 1\<rparr>,
        fst (snd (add_play (Player ''Doe'' 12 ''G'' 1 1) 7 ''Doe(ABC) Layup made''
            (JStr ''19:40'') (JInt 1))),
        [])"
proof -
  have "contains_ci ''Doe(ABC) Free Throw made'' ''made''"
    by (simp add: contains_ci_def eval_text)
  then show ?thesis
    by (simp add: add_play_existing doe_layup_made self_equal_def)
qed

subsection \<open>A made layup\<close>

text \<open>
  C3, as stated, fails: on a new player the text "Doe(ABC) made Layup" does not increment
  both \<^verbatim>\<open>field_goals_made\<close> and \<^verbatim>\<open>field_goals_attempted\<close>.
\<close>

theorem made_layup_counterexample:
  "\<not> (field_goals_made (fst (snd (add_play (Player ''Doe'' 12 ''G'' 1 1) 7
          ''Doe(ABC) made Layup'' (JStr ''19:40'') (JInt 1)))) =
        field_goals_made (Player ''Doe'' 12 ''G'' 1 1) + 1
      \<and> field_goals_attempted (fst (snd (add_play (Player ''Doe'' 12 ''G'' 1 1) 7
          ''Doe(ABC) made Layup'' (JStr ''19:40'') (JInt 1)))) =
        field_goals_attempted (Player ''Doe'' 12 ''G'' 1 1) + 1)"
proof -
  let ?p = "Player ''Doe'' 12 ''G'' 1 1"
  have h: "find (\<lambda>pl. play_id pl = 7) (plays ?p) = None"
    by (simp add: Player_def)
  have nf: "\<not> fires Field_goals_made ''Doe(ABC) made Layup''"
    by (simp add: fires_def eval_text)
  show ?thesis
    using add_play_new(3) [OF h, of "''Doe(ABC) made Layup''" "JStr ''19:40''" "JInt 1" Field_goals_made] nf
    by simp
qed

text \<open>
  C3, amended. For a play id that no play of the player's sequence carries, the text
  "Doe(ABC) made Layup" increments \<^verbatim>\<open>field_goals_attempted\<close> by one and leaves
  \<^verbatim>\<open>field_goals_made\<close> as it was: the rule of \<^verbatim>\<open>field_goals_made\<close> wants the kind of shot
  before the word "made". The text "Doe(ABC) Layup made" increments both by one in the
  same call.
\<close>

theorem made_layup_word_order:
  assumes "find (\<lambda>pl. play_id pl = pid) (plays p) = None"
  shows "field_goals_attempted (fst (snd (add_play p pid ''Doe(ABC) made Layup'' clk per))) =
           field_goals_attempted p + 1
       \<and> field_goals_made (fst (snd (add_play p pid ''Doe(ABC) made Layup'' clk per))) =
           field_goals_made p
       \<and> field_goals_attempted (fst (snd (add_play p pid ''Doe(ABC) Layup made'' clk per))) =
           field_goals_attempted p + 1
       \<and> field_goals_made (fst (snd (add_play p pid ''Doe(ABC) Layup made'' clk per))) =
           field_goals_made p + 1"
proof -
  have f: "fires Field_goals_attempted ''Doe(ABC) made Layup''"
    "\<not> fires Field_goals_made ''Doe(ABC) made Layup''"
    "fires Field_goals_attempted ''Doe(ABC) Layup made''"
    "fires Field_goals_made ''Doe(ABC) Layup made''"
    by (simp_all add: fires_def eval_text)
  show ?thesis
    using add_play_new(3) [OF assms, of "''Doe(ABC) made Layup''" clk per Field_goals_attempted]
      add_play_new(3) [OF assms, of "''Doe(ABC) made Layup''" clk per Field_goals_made]
      add_play_new(3) [OF assms, of "''Doe(ABC) Layup made''" clk per Field_goals_attempted]
      add_play_new(3) [OF assms, of "''Doe(ABC) Layup made''" clk per Field_goals_made]
      f
    by simp
qed

theorem made_layup_word_order_witness:
  "find (\<lambda>pl. play_id pl = 7) (plays (Player ''Doe'' 12 ''G'' 1 1)) = None
   \<and> field_goals_attempted (fst (snd (add_play (Player ''Doe'' 12 ''G'' 1 1) 7
         ''Doe(ABC) made Layup'' (JStr ''19:40'') (JInt 1)))) = 1
   \<and> field_goals_made (fst (snd (add_play (Player ''Doe'' 12 ''G'' 1 1) 7
         ''Doe(ABC) made Layup'' (JStr ''19:40'') (JInt 1)))) = 0
   \<and> field_goals_attempted (fst (snd (add_play (Player ''Doe'' 12 ''G'' 1 1) 7
         ''Doe(ABC) Layup made'' (JStr ''19:40'') (JInt 1)))) = 1
   \<and> field_goals_made (fst (snd (add_play (Player ''Doe'' 12 ''G'' 1 1) 7
         ''Doe(ABC) Layup made'' (JStr ''19:40'') (JInt 1)))) = 1"
proof -
  let ?p = "Player ''Doe'' 12 ''G'' 1 1"
  have h: "find (\<lambda>pl. play_id pl = 7) (plays ?p) = None"
    by (simp add: Player_def)
  have z: "field_goals_attempted ?p = 0" "field_goals_made ?p = 0"
    by (simp_all add: Player_def)
  from made_layup_word_order [OF h, of "JStr ''19:40''" "JInt 1"] h z
  show ?thesis by simp
qed

section \<open>Properties of the protocol messages\<close>

text \<open>
  C4. The claim is that the ids of a mixed sequence of Handshake, Connect and Subscribe
  constructions are strictly increasing. The code does otherwise: each subclass reads the
  counter of \<^verbatim>\<open>BaseMessage\<close> until its first instance has assigned a counter in the
  subclass's own namespace, so the first message of each of the three classes gets the id
  "0": the handshake, connect and subscribe messages that open a session carry the same id.
\<close>

theorem message_ids_repeat:
  "map message_id
     (construct_all initial_class_attrs
        [Handshake [(''livestream_token'', ''''), (''livestream_user_id'', ''u1'')],
         Connect [(''livestream_token'', ''''), (''livestream_user_id'', ''u1'')] (JStr ''c1''),
         Subscribe [(''livestream_token'', ''''), (''livestream_user_id'', ''u1'')] (JStr ''c1'')
           ''/MBB/box_score/1'']) =
   [''0'', ''0'', ''0'']"
  by (simp add: initial_class_attrs_def new_HandshakeMessage_def new_ConnectMessage_def
      new_SubscribeMessage_def post_init_def id_counter_def str_int_def char_of_eq_iff)

section \<open>Properties of the stream\<close>

subsection \<open>Resolving a reference to a player\<close>

lemmas eval_game = sample_game_def away_roster_def home_roster_def Player_def get_player_def
  get_player_by_name_def

lemma get_player_bound:
  "team_shortname (away_scoreboard st) = Some sh \<Longrightarrow>
     get_player st nm sh = (map_option (Pair Away) (get_player_by_name (away_scoreboard st) nm), st)"
  "team_shortname (away_scoreboard st) \<noteq> Some sh \<Longrightarrow>
   team_shortname (home_scoreboard st) = Some sh \<Longrightarrow>
     get_player st nm sh = (map_option (Pair Home) (get_player_by_name (home_scoreboard st) nm), st)"
  by (simp_all add: get_player_def)

text \<open>
  C5. The claim is that a scoreboard, once bound to a shorthand by a resolved reference,
  stays bound to it. The code does otherwise: in the game of the examples the reference
  Smith(ABC) binds the away scoreboard to ABC; the reference Smith(XYZ), which names the
  Smith of the home team while the home scoreboard is still unbound, falls through to the
  search by name, finds the away team's Smith and binds the away scoreboard to XYZ.
\<close>

theorem shorthand_rebound:
  "fst (get_player sample_game ''Smith'' ''ABC'') = Some (Away, 0)
   \<and> team_shortname (away_scoreboard (snd (get_player sample_game ''Smith'' ''ABC''))) = Some ''ABC''
   \<and> fst (get_player (snd (get_player sample_game ''Smith'' ''ABC'')) ''Smith'' ''XYZ'') =
       Some (Away, 0)
   \<and> team_shortname (away_scoreboard
         (snd (get_player (snd (get_player sample_game ''Smith'' ''ABC'')) ''Smith'' ''XYZ''))) =
       Some ''XYZ''
   \<and> team_shortname (home_scoreboard
         (snd (get_player (snd (get_player sample_game ''Smith'' ''ABC'')) ''Smith'' ''XYZ''))) =
       None"
  by (simp add: eval_game)

subsection \<open>The router\<close>

lemma subscribed_channel_sample: "subscribed_channel sample_game = ''/MBB/box_score/1''"
  by (simp add: subscribed_channel_def sample_game_def str_int_def char_of_eq_iff)

lemmas eval_router = is_relevant_message_def extract_play_data_def forwarded_def py_and_def
  py_not_def keys_def startswith_def sample_play_def subscribed_channel_sample

text \<open>
  C6, as stated, fails: an item on the subscribed channel whose payload holds a \<^verbatim>\<open>chart\<close>
  key beside a play is not excluded, its play is handed on. The test of the code is on the
  keys of the item itself.
\<close>

theorem payload_chart_key_counterexample:
  "forwarded sample_game
     (JObj [(''channel'', JStr ''/MBB/box_score/1''),
            (''data'', JObj [(''chart'', JObj []), sample_play])]) \<noteq> []"
  by (simp add: eval_router)

lemma top_level_chart_key:
  "forwarded sample_game
     (JObj [(''channel'', JStr ''/MBB/box_score/1''), (''chart'', JObj []),
            (''data'', JObj [sample_play])]) = []"
  by (simp add: eval_router)

lemma py_and_True: "py_and a b = Inr True \<longleftrightarrow> a = Inr True \<and> b = Inr True"
  by (auto simp: py_and_def split: sum.splits bool.splits)

lemma py_not_True: "py_not a = Inr True \<longleftrightarrow> a = Inr False"
  by (auto simp: py_not_def split: sum.splits)

lemma is_relevant_message_True:
  assumes "is_relevant_message st item = Inr True"
  shows "\<exists>kvs. item = JObj kvs \<and> map_of kvs ''channel'' = Some (JStr (subscribed_channel st))
           \<and> ''data'' \<in> set (keys kvs) \<and> ''chart'' \<notin> set (keys kvs)
           \<and> ''shot_chart'' \<notin> set (keys kvs)"
proof (cases item)
  case (JObj kvs)
  with assms show ?thesis
    by (auto simp: is_relevant_message_def py_and_True py_not_True split: option.splits sum.splits)
qed (use assms in \<open>auto simp: is_relevant_message_def py_and_True\<close>)

text \<open>
  C6, amended. An item hands play submissions on only if it is an object whose channel is
  the subscribed channel, whose \<^verbatim>\<open>data\<close> is a non-empty object, and which has neither a
  \<^verbatim>\<open>chart\<close> nor a \<^verbatim>\<open>shot_chart\<close> key of its own; the submissions are then the entries of the
  payload whose key starts with \<^verbatim>\<open>play_\<close>. Every other item hands on none.
\<close>

theorem forwarded_only_relevant:
  assumes "forwarded st item \<noteq> []"
  shows "\<exists>kvs payload. item = JObj kvs
           \<and> map_of kvs ''channel'' = Some (JStr (subscribed_channel st))
           \<and> map_of kvs ''data'' = Some (JObj payload) \<and> payload \<noteq> []
           \<and> ''chart'' \<notin> set (keys kvs) \<and> ''shot_chart'' \<notin> set (keys kvs)
           \<and> forwarded st item = filter (\<lambda>(key, value). startswith key ''play_'') payload"
proof -
  from assms have rel: "is_relevant_message st item = Inr True"
    by (auto simp: forwarded_def split: sum.splits bool.splits)
  then obtain kvs where kvs: "item = JObj kvs"
    "map_of kvs ''channel'' = Some (JStr (subscribed_channel st))"
    "''chart'' \<notin> set (keys kvs)" "''shot_chart'' \<notin> set (keys kvs)"
    using is_relevant_message_True by blast
  from assms rel kvs(1) obtain payload where p: "map_of kvs ''data'' = Some (JObj payload)"
    "forwarded st item = filter (\<lambda>(key, value). startswith key ''play_'') payload"
    by (auto simp: forwarded_def extract_play_data_def split: option.splits json.splits)
  with assms have "payload \<noteq> []" by auto
  with kvs p show ?thesis by blast
qed

theorem forwarded_only_relevant_witness:
  "forwarded sample_game
     (JObj [(''channel'', JStr ''/MBB/box_score/1''), (''data'', JObj [sample_play])]) \<noteq> []
   \<and> (\<exists>kvs payload.
         JObj [(''channel'', JStr ''/MBB/box_score/1''), (''data'', JObj [sample_play])] = JObj kvs
         \<and> map_of kvs ''channel'' = Some (JStr (subscribed_channel sample_game))
         \<and> map_of kvs ''data'' = Some (JObj payload) \<and> payload \<noteq> []
         \<and> ''chart'' \<notin> set (keys kvs) \<and> ''shot_chart'' \<notin> set (keys kvs))"
proof -
  have h: "forwarded sample_game
     (JObj [(''channel'', JStr ''/MBB/box_score/1''), (''data'', JObj [sample_play])]) \<noteq> []"
    by (simp add: eval_router)
  from forwarded_only_relevant [OF h] h show ?thesis by blast
qed

subsection \<open>A frame that is not JSON\<close>

text \<open>
  The task ends exactly when an exception leaves a run of the iteration; after a normal
  closure of the connection it does not end.
\<close>

lemma async_for_exhausted:
  "async_for st frames cl = Inr st' \<Longrightarrow> cl = ConnectionClosedOK \<and> async_for st' [] cl = Inr st'"
  by (auto simp: async_for_def split: sum.splits closure.splits)

lemma process_messages_Some:
  assumes "process_messages st frames cl = Some x"
  shows "async_for st frames cl = Inl x"
proof (rule process_messages.raw_induct
    [where P = "\<lambda>st frames cl x. async_for st frames cl = Inl x", OF _ assms])
  fix pm st frames cl y
  assume IH: "\<And>s fr c z. pm s fr c = Some z \<Longrightarrow> async_for s fr c = Inl z"
    and eq: "(case async_for st frames cl of Inl ending \<Rightarrow> Some ending
               | Inr st' \<Rightarrow> pm st' [] cl) = Some y"
  show "async_for st frames cl = Inl y"
  proof (cases "async_for st frames cl")
    case (Inl a)
    with eq show ?thesis by simp
  next
    case (Inr st')
    with eq have "pm st' [] cl = Some y" by simp
    then have "async_for st' [] cl = Inl y" by (rule IH)
    with async_for_exhausted [OF Inr] show ?thesis by simp
  qed
qed

lemma process_messages_spins:
  assumes "process_frames st frames = Inr st'"
  shows "process_messages st frames ConnectionClosedOK = None"
proof (cases "process_messages st frames ConnectionClosedOK")
  case None
  then show ?thesis .
next
  case (Some x)
  then have "async_for st frames ConnectionClosedOK = Inl x" by (rule process_messages_Some)
  with assms show ?thesis by (simp add: async_for_def)
qed

lemma process_messages_ends:
  "async_for st frames cl = Inl x \<Longrightarrow> process_messages st frames cl = Some x"
  by (subst process_messages.simps) simp

lemma process_frames_append_error:
  "process_frames st (pre @ Inl e # post) =
     Inl (case process_frames st pre of Inr st' \<Rightarrow> e | Inl e' \<Rightarrow> e')"
  by (induction pre arbitrary: st) (auto split: sum.splits)

lemma sample_frame_processed:
  "process_frames sample_game [Inr sample_frame] \<noteq> Inl JSONDecodeError"
  by (simp add: sample_frame_def eval_router process_play_data_def py_int_def str_int_def char_of_eq_iff
    is_int_space_def is_digit_def split: sum.splits)

text \<open>
  C7, as stated, fails: an undecodable frame followed by the frame of the examples ends the
  task with the decoder's exception, and \<^verbatim>\<open>stream\<close> with it; the second frame, which on its
  own is processed, is never looked at.
\<close>

theorem undecodable_frame_counterexample:
  "process_messages sample_game [Inl JSONDecodeError, Inr sample_frame] ConnectionClosedError =
     Some (Raised JSONDecodeError)
   \<and> process_messages sample_game [Inr sample_frame] ConnectionClosedError \<noteq>
       Some (Raised JSONDecodeError)
   \<and> stream sample_game [([Inl JSONDecodeError, Inr sample_frame], ConnectionClosedError)] =
       Some (Inl JSONDecodeError)"
proof -
  have bad: "process_messages sample_game [Inl JSONDecodeError, Inr sample_frame]
      ConnectionClosedError = Some (Raised JSONDecodeError)"
    by (rule process_messages_ends) (simp add: async_for_def)
  have good: "process_messages sample_game [Inr sample_frame] ConnectionClosedError \<noteq>
      Some (Raised JSONDecodeError)"
  proof
    assume "process_messages sample_game [Inr sample_frame] ConnectionClosedError =
      Some (Raised JSONDecodeError)"
    then have "async_for sample_game [Inr sample_frame] ConnectionClosedError =
      Inl (Raised JSONDecodeError)"
      by (rule process_messages_Some)
    with sample_frame_processed show False
      by (auto simp: async_for_def split: sum.splits)
  qed
  from bad good show ?thesis by simp
qed

text \<open>
  C7, amended. An undecodable frame is not skipped: when the frames before it leave the
  task running, the task ends at that frame with the decoder's exception, whatever frames
  follow and however the connection would close; when an earlier frame has already ended
  the task, that exception stands. In both cases \<^verbatim>\<open>stream\<close> ends with the same exception
  and opens no further connection.
\<close>

theorem undecodable_frame_ends_task:
  "process_messages st (pre @ Inl e # post) cl =
     Some (Raised (case process_frames st pre of Inr st' \<Rightarrow> e | Inl e' \<Rightarrow> e'))
   \<and> stream st ((pre @ Inl e # post, cl) # connections) =
     Some (Inl (case process_frames st pre of Inr st' \<Rightarrow> e | Inl e' \<Rightarrow> e'))"
proof -
  have "process_messages st (pre @ Inl e # post) cl =
     Some (Raised (case process_frames st pre of Inr st' \<Rightarrow> e | Inl e' \<Rightarrow> e'))"
    by (rule process_messages_ends) (simp add: async_for_def process_frames_append_error)
  then show ?thesis by simp
qed

section \<open>Properties of the bootstrap\<close>

lemma init_fetch_failed: "init sc gid None scraped = Inl AttributeError"
  by (simp add: init_def)

lemma init_header_present:
  assumes "headers r ''Set-Cookie'' = Some h"
  shows "\<exists>st. init sc gid (Some r) (Inr (away, home)) = Inr st
           \<and> away_scoreboard st = away \<and> home_scoreboard st = home
           \<and> session_cookie st =
               ''livestream_user_id='' @ (case fst (cookie_groups h) of Some g \<Rightarrow> g | None \<Rightarrow> [])
               @ ''; _stats_session='' @ (case snd (cookie_groups h) of Some g \<Rightarrow> g | None \<Rightarrow> [])"
  using assms by (simp add: init_def Let_def)

lemma is_substring_startswith: "startswith s k \<Longrightarrow> is_substring k s"
  by (cases s) (auto simp: startswith_def)

lemma is_substring_append: "is_substring k s \<Longrightarrow> is_substring k (u @ s)"
  by (induction u) simp_all

lemma session_group_substring:
  "session_group s = Some g \<Longrightarrow> is_substring ''_stats_session='' s"
proof (induction s)
  case Nil
  then show ?case by (simp add: session_here_def startswith_def)
next
  case (Cons c cs)
  show ?case
  proof (cases "session_here (c # cs)")
    case None
    with Cons show ?thesis by (auto split: if_splits)
  next
    case (Some a)
    then have "startswith (c # cs) ''_stats_session=''"
      by (auto simp: session_here_def split: if_splits)
    then show ?thesis by (rule is_substring_startswith)
  qed
qed

lemma token_suffix: "token s = Some (g, rest) \<Longrightarrow> \<exists>u. s = u @ rest"
  by (auto simp: token_def Let_def split: if_splits list.splits)
     (metis append.assoc append_Cons append_Nil takeWhile_dropWhile_id)

lemma user_id_group_suffix: "user_id_group h = Some (g, rest) \<Longrightarrow> \<exists>u. h = u @ rest"
proof -
  assume a: "user_id_group h = Some (g, rest)"
  then have "token (drop (length ''livestream_user_id='') h) = Some (g, rest)"
    by (auto simp: user_id_group_def split: if_splits)
  then obtain u where "drop (length ''livestream_user_id='') h = u @ rest"
    using token_suffix by blast
  then have "h = (take (length ''livestream_user_id='') h @ u) @ rest"
    by (metis append_assoc append_take_drop_id)
  then show ?thesis by blast
qed

lemma tokens_default:
  "\<not> is_substring ''livestream_user_id='' h \<Longrightarrow> fst (cookie_groups h) = None"
  "\<not> is_substring ''_stats_session='' h \<Longrightarrow> snd (cookie_groups h) = None"
proof -
  assume "\<not> is_substring ''livestream_user_id='' h"
  then have "\<not> startswith h ''livestream_user_id=''"
    using is_substring_startswith by blast
  then show "fst (cookie_groups h) = None"
    by (simp add: cookie_groups_def user_id_group_def)
next
  assume n: "\<not> is_substring ''_stats_session='' h"
  show "snd (cookie_groups h) = None"
  proof (cases "user_id_group h")
    case None
    with n session_group_substring [of h] show ?thesis
      by (cases "session_group h") (auto simp: cookie_groups_def)
  next
    case (Some a)
    obtain g rest where a: "a = (g, rest)" by (cases a)
    with Some obtain u where "h = u @ rest" using user_id_group_suffix by blast
    with n have "\<not> is_substring ''_stats_session='' rest"
      using is_substring_append by blast
    with session_group_substring [of rest] have "session_group rest = None"
      by (cases "session_group rest") auto
    with Some a show ?thesis by (simp add: cookie_groups_def)
  qed
qed

text \<open>
  C8. The claim is that bootstrap fails only when the fetch fails and that a missing
  session header is never fatal. The code does otherwise: for a response that was fetched
  and has no \<^verbatim>\<open>Set-Cookie\<close> header, \<^verbatim>\<open>response.headers["Set-Cookie"]\<close> raises \<^verbatim>\<open>KeyError\<close> and
  no session is made. (With the header present, the lemmas above give the rest of the
  claim: each token that the header lacks is the empty string.)
\<close>

theorem init_without_set_cookie:
  "init ''MBB'' 1
     (Some \<lparr>headers = [''Content-Type'' \<mapsto> ''text/html''], response_text = ''<html></html>''\<rparr>)
     (Inr (away_roster, home_roster)) = Inl KeyError"
  by (simp add: init_def)

end
